theory Spec2Isabelle
  imports Complex_Main
begin

section \<open>Decimal values\<close>

text \<open>
  The program computes money values with Python's \<^verbatim>\<open>decimal.Decimal\<close>.  A decimal is
  embedded as the rational number it denotes.  \<^verbatim>\<open>Decimal.quantize\<close> with an exponent of
  \<open>10\<^sup>-\<^sup>d\<close> rounds to \<open>d\<close> fractional digits; the default context rounds half to even.
  The default context keeps 28 significant digits: sums, differences and products of the
  embedded values are exact, as Python's are whenever the result has at most 28 digits.
  JSON numbers of the exchange (Python floats) are embedded as the rationals they denote.
\<close>

type_synonym decimal = rat

definition round_half_even :: "rat \<Rightarrow> int" where
  "round_half_even x =
     (let f = \<lfloor>x\<rfloor>; r = x - of_int f
      in if r < 1 / 2 then f
         else if 1 / 2 < r then f + 1
         else if even f then f else f + 1)"

definition quantize :: "nat \<Rightarrow> decimal \<Rightarrow> decimal" where
  "quantize d x = of_int (round_half_even (x * 10 ^ d)) / 10 ^ d"

text \<open>
  Modelled from the spec: \<^verbatim>\<open>BittrexConstants.DIGITS\<close> of \<^verbatim>\<open>utilities/constants.py\<close>, the
  quantization exponent of every price (``a configured quantization scale (8 fractional
  digits)''), is given here as the number of fractional digits.
\<close>

definition DIGITS :: nat where
  "DIGITS = 8"


section \<open>Errors\<close>

text \<open>The Python exceptions the embedded code can raise.\<close>

datatype py_error =
    ValueError string
  | RuntimeError string
  | AttributeError
  | TypeError
  | IndexError
  | NameError
  | ZeroDivisionError
  | DivisionByZero
  | InvalidOperation

section \<open>Exchange gateway\<close>

text \<open>
  Every call that leaves the process is recorded in a trace, oldest first.  \<^verbatim>\<open>sleep(n)\<close>
  is recorded too, so that the answers of the exchange may depend on the time that has
  passed.
\<close>

datatype call =
    GetTicker string
  | BuyLimit string decimal decimal
  | SellLimit string decimal decimal
  | GetOrder "string option"
  | Cancel string
  | Sleep nat

text \<open>
  A response of \<^verbatim>\<open>Bittrex._api_query\<close> is the dictionary
  \<^verbatim>\<open>{'success': ..., 'message': ..., 'result': ...}\<close>; \<^verbatim>\<open>_api_query\<close> catches every
  exception of the transport and answers \<^verbatim>\<open>success: False, result: None\<close> instead, so a
  call never raises.  The message is only ever written to the log and is left out.
  \<open>result = None\<close> stands for Python's \<^verbatim>\<open>None\<close> (and for the empty dictionary).
\<close>

record 'r response =
  success :: bool
  result :: "'r option"

record ticker =
  Bid :: decimal
  Ask :: decimal

text \<open>
  The order record of \<^verbatim>\<open>get_order\<close>, with the keys the program reads.  \<open>Closed\<close> is the
  instant the timestamp denotes (seconds), \<open>None\<close> while the order is open.
\<close>

record order_data =
  Type :: string
  Quantity :: rat
  QuantityRemaining :: rat
  Price :: rat
  PricePerUnit :: rat
  CommissionPaid :: rat
  Closed :: "rat option"

text \<open>
  The exchange is a deterministic function of the history of calls made so far: each
  endpoint maps the trace before the call, and the call's arguments, to its response.
  The result of \<^verbatim>\<open>buy_limit\<close> and \<^verbatim>\<open>sell_limit\<close> is \<^verbatim>\<open>{'uuid': u}\<close>, given as \<open>u\<close>.
  The identifier passed to \<^verbatim>\<open>get_order\<close> is optional, since an order that was never
  submitted carries \<^verbatim>\<open>uuid = None\<close>.
\<close>

record exchange =
  get_ticker :: "call list \<Rightarrow> string \<Rightarrow> ticker response"
  buy_limit :: "call list \<Rightarrow> string \<Rightarrow> decimal \<Rightarrow> decimal \<Rightarrow> string response"
  sell_limit :: "call list \<Rightarrow> string \<Rightarrow> decimal \<Rightarrow> decimal \<Rightarrow> string response"
  get_order :: "call list \<Rightarrow> string option \<Rightarrow> order_data response"
  cancel :: "call list \<Rightarrow> string \<Rightarrow> unit response"

section \<open>Orders\<close>

text \<open>
  Modelled from the spec: \<^verbatim>\<open>OrderStatus\<close> of \<^verbatim>\<open>utilities/constants.py\<close>, the lifecycle
  status of an order (UNEXECUTED, EXECUTED, COMPLETED, SKIPPED).
\<close>

datatype OrderStatus = UNEXECUTED | EXECUTED | COMPLETED | SKIPPED

text \<open>The attributes of class \<^verbatim>\<open>BittrexOrder\<close>; \<open>type\<close> is written \<open>order_type\<close>.\<close>

record BittrexOrder =
  market :: string
  order_type :: string
  target_price :: decimal
  target_quantity :: decimal
  base_quantity :: decimal
  current_quantity :: decimal
  status :: OrderStatus
  uuid :: "string option"
  open_time :: "rat option"
  closed_time :: "rat option"
  actual_price :: decimal
  cost :: decimal

text \<open>
  \<^verbatim>\<open>BittrexOrder.create\<close>: a new order from the caller's market, type and quantities;
  every other attribute takes the default of \<^verbatim>\<open>__init__\<close>.
\<close>

definition create :: "string \<Rightarrow> string \<Rightarrow> decimal \<Rightarrow> decimal \<Rightarrow> BittrexOrder" where
  "create mkt ty tq bq =
     \<lparr>market = mkt, order_type = ty, target_price = 0, target_quantity = tq,
      base_quantity = bq, current_quantity = 0, status = UNEXECUTED, uuid = None,
      open_time = None, closed_time = None, actual_price = 0, cost = 0\<rparr>"

definition update_uuid :: "BittrexOrder \<Rightarrow> string \<Rightarrow> BittrexOrder" where
  "update_uuid self u = self\<lparr>uuid := Some u\<rparr>"

definition update_status :: "BittrexOrder \<Rightarrow> OrderStatus \<Rightarrow> BittrexOrder" where
  "update_status self s = self\<lparr>status := s\<rparr>"

definition update_target_price :: "BittrexOrder \<Rightarrow> decimal \<Rightarrow> BittrexOrder" where
  "update_target_price self price = self\<lparr>target_price := price\<rparr>"

section \<open>Wallet ledger\<close>

text \<open>
  Modelled from the spec: class \<^verbatim>\<open>Wallet\<close> is not part of the sources.  The spec describes
  it as a ``mutable per-asset balance keyed by market symbol; updated additively'', with
  \<^verbatim>\<open>getBalance(assetOrMarket)\<close> and \<^verbatim>\<open>applyDelta(assetOrMarket, quantityDelta, costDelta)\<close>:
  after a buy the balance of the asset is the balance before plus the quantity, and the
  balance of the quote asset (\<^verbatim>\<open>'BTC'\<close>) is the balance before minus the cost.
\<close>

type_synonym wallet = "string \<Rightarrow> decimal"

definition get_quantity :: "wallet \<Rightarrow> string \<Rightarrow> decimal" where
  "get_quantity w m = w m"

definition update_wallet :: "wallet \<Rightarrow> string \<Rightarrow> decimal \<Rightarrow> decimal \<Rightarrow> wallet" where
  "update_wallet w m quantity_delta cost_delta =
     (let w1 = w(m := w m + quantity_delta) in w1(''BTC'' := w1 ''BTC'' - cost_delta))"

section \<open>Pricing and submission (\<^verbatim>\<open>manager_helper.py\<close>)\<close>

text \<open>
  \<^verbatim>\<open>Bittrex.get_ticker_or_else\<close>: raises \<^verbatim>\<open>ValueError\<close> unless the call succeeded with a
  non-empty result.
\<close>

definition get_ticker_or_else ::
  "exchange \<Rightarrow> string \<Rightarrow> call list \<Rightarrow> call list \<times> (py_error + ticker)" where
  "get_ticker_or_else bittrex mkt tr =
     (let t = get_ticker bittrex tr mkt; tr1 = tr @ [GetTicker mkt]
      in case result t of
           None \<Rightarrow> (tr1, Inl (ValueError ''Get ticker API call failed.''))
         | Some ticker_result \<Rightarrow>
             if \<not> success t then (tr1, Inl (ValueError ''Get ticker API call failed.''))
             else (tr1, Inr ticker_result))"

text \<open>
  The parameter \<open>pf\<close> of the two price computations is the decimal
  \<^verbatim>\<open>Decimal(str(percent / 100))\<close>.  For the default \<^verbatim>\<open>percent=5\<close> the float \<^verbatim>\<open>5 / 100\<close>
  prints as \<^verbatim>\<open>'0.05'\<close>, so the decimal is \<open>5 / 100\<close>.
\<close>

definition default_percent :: decimal where
  "default_percent = 5 / 100"

text \<open>Lines 64 to 69 of \<^verbatim>\<open>buy_above_bid\<close>.\<close>

definition buy_price_of :: "decimal \<Rightarrow> decimal \<Rightarrow> decimal \<Rightarrow> decimal" where
  "buy_price_of bid_price ask_price pf =
     (let price_buffer = (ask_price - bid_price) * pf;
          buy_price = quantize DIGITS (bid_price + price_buffer)
      in if buy_price > ask_price then bid_price else buy_price)"

text \<open>Lines 129 to 134 of \<^verbatim>\<open>sell_below_ask\<close>.\<close>

definition sell_price_of :: "decimal \<Rightarrow> decimal \<Rightarrow> decimal \<Rightarrow> decimal" where
  "sell_price_of bid_price ask_price pf =
     (let price_buffer = (ask_price - bid_price) * pf;
          sell_price = quantize DIGITS (ask_price - price_buffer)
      in if sell_price < bid_price then ask_price else sell_price)"

text \<open>
  \<^verbatim>\<open>buy_above_bid\<close> and \<^verbatim>\<open>sell_below_ask\<close> change the order in place and answer a
  boolean; the embedding returns the trace, the order and the answer.  The
  \<^verbatim>\<open>ValueError\<close> of a failed call is caught inside and becomes the answer \<^verbatim>\<open>False\<close>;
  reading \<^verbatim>\<open>.get('uuid')\<close> of a missing result raises \<^verbatim>\<open>AttributeError\<close>, which
  is not caught.
\<close>

definition buy_above_bid ::
  "string \<Rightarrow> BittrexOrder \<Rightarrow> wallet \<Rightarrow> exchange \<Rightarrow> decimal \<Rightarrow> call list
     \<Rightarrow> call list \<times> BittrexOrder \<times> (py_error + bool)" where
  "buy_above_bid mkt order wlt bittrex pf tr =
     (case get_ticker_or_else bittrex mkt tr of
        (tr1, Inl e) \<Rightarrow> (tr1, order, Inr False)
      | (tr1, Inr tk) \<Rightarrow>
          (let bid_price = Bid tk; ask_price = Ask tk;
               order1 = update_target_price order (buy_price_of bid_price ask_price pf)
           in if get_quantity wlt ''BTC'' < base_quantity order1 then (tr1, order1, Inr False)
              else
                (let buy_response =
                       buy_limit bittrex tr1 mkt (target_quantity order1) (target_price order1);
                     tr2 = tr1 @ [BuyLimit mkt (target_quantity order1) (target_price order1)]
                 in if success buy_response then
                      (case result buy_response of
                         None \<Rightarrow> (tr2, order1, Inl AttributeError)
                       | Some u \<Rightarrow>
                           (tr2, update_status (update_uuid order1 u) EXECUTED, Inr True))
                    else (tr2, order1, Inr False))))"

definition sell_below_ask ::
  "string \<Rightarrow> BittrexOrder \<Rightarrow> wallet \<Rightarrow> exchange \<Rightarrow> decimal \<Rightarrow> call list
     \<Rightarrow> call list \<times> BittrexOrder \<times> (py_error + bool)" where
  "sell_below_ask mkt order wlt bittrex pf tr =
     (case get_ticker_or_else bittrex mkt tr of
        (tr1, Inl e) \<Rightarrow> (tr1, order, Inr False)
      | (tr1, Inr tk) \<Rightarrow>
          (let bid_price = Bid tk; ask_price = Ask tk;
               order1 = update_target_price order (sell_price_of bid_price ask_price pf)
           in if get_quantity wlt mkt = 0 then (tr1, order1, Inr False)
              else
                (let sell_response =
                       sell_limit bittrex tr1 mkt (get_quantity wlt mkt) (target_price order1);
                     tr2 = tr1 @ [SellLimit mkt (get_quantity wlt mkt) (target_price order1)]
                 in if success sell_response then
                      (case result sell_response of
                         None \<Rightarrow> (tr2, order1, Inl AttributeError)
                       | Some u \<Rightarrow>
                           (tr2, update_status (update_uuid order1 u) EXECUTED, Inr True))
                    else (tr2, order1, Inr False))))"

section \<open>Reconciliation\<close>

text \<open>
  \<^verbatim>\<open>BittrexOrder.add_completed_order\<close>.  The status is assigned first; reading a key of
  a missing record (\<^verbatim>\<open>None\<close>) then raises \<^verbatim>\<open>AttributeError\<close>.  A \<^verbatim>\<open>Closed\<close> of
  \<^verbatim>\<open>None\<close> makes the timestamp conversion raise \<^verbatim>\<open>TypeError\<close>, which is caught: the
  closing time is then the current time \<open>now\<close>.  The method returns the changed order
  and the exception, if one was raised.
\<close>

definition add_completed_order ::
  "BittrexOrder \<Rightarrow> order_data option \<Rightarrow> rat \<Rightarrow> BittrexOrder \<times> py_error option" where
  "add_completed_order self order now =
     (let s1 = self\<lparr>status := COMPLETED\<rparr>
      in case order of
           None \<Rightarrow> (s1, Some AttributeError)
         | Some d \<Rightarrow>
             (let s2 = s1\<lparr>actual_price := quantize DIGITS (PricePerUnit d)\<rparr>;
                  s3 = s2\<lparr>closed_time := Some (case Closed d of Some t \<Rightarrow> t | None \<Rightarrow> now)\<rparr>
              in if Type d = ''LIMIT_BUY'' then
                   (s3\<lparr>cost := quantize DIGITS (Price d + CommissionPaid d),
                       current_quantity :=
                         quantize DIGITS (Quantity d - QuantityRemaining d)\<rparr>, None)
                 else if Type d = ''LIMIT_SELL'' then
                   (s3\<lparr>cost := quantize DIGITS (Price d - CommissionPaid d)\<rparr>, None)
                 else (s3, None)))"

text \<open>
  \<^verbatim>\<open>get_order_and_update_wallet\<close> reads \<^verbatim>\<open>order.total\<close>.  Class \<^verbatim>\<open>BittrexOrder\<close> has no
  such attribute: \<^verbatim>\<open>__init__\<close> and \<^verbatim>\<open>add_completed_order\<close> assign \<^verbatim>\<open>cost\<close>, and
  nothing assigns \<^verbatim>\<open>total\<close>.  Reading it raises \<^verbatim>\<open>AttributeError\<close>.
\<close>

definition order_total :: "BittrexOrder \<Rightarrow> py_error + decimal" where
  "order_total self = Inl AttributeError"

definition get_order_and_update_wallet ::
  "BittrexOrder \<Rightarrow> wallet \<Rightarrow> exchange \<Rightarrow> rat \<Rightarrow> call list
     \<Rightarrow> call list \<times> BittrexOrder \<times> (py_error + wallet)" where
  "get_order_and_update_wallet order wlt bittrex now tr =
     (let order_response = get_order bittrex tr (uuid order);
          tr1 = tr @ [GetOrder (uuid order)]
      in case add_completed_order order (result order_response) now of
           (order1, Some e) \<Rightarrow> (tr1, order1, Inl e)
         | (order1, None) \<Rightarrow>
             if order_type order1 = ''BUY'' then
               (case order_total order1 of
                  Inl e \<Rightarrow> (tr1, order1, Inl e)
                | Inr t \<Rightarrow>
                    (tr1, order1,
                     Inr (update_wallet wlt (market order1) (current_quantity order1) t)))
             else
               (case order_total order1 of
                  Inl e \<Rightarrow> (tr1, order1, Inl e)
                | Inr t \<Rightarrow>
                    (tr1, order1,
                     Inr (update_wallet wlt (market order1)
                            (- 1 * current_quantity order1) (- 1 * t)))))"

section \<open>Submission with retries (\<^verbatim>\<open>bittrex2.py\<close>)\<close>

text \<open>
  Each \<^verbatim>\<open>for\<close> loop over \<^verbatim>\<open>range(retry)\<close> is a recursion over the list of its
  indices, started with \<open>[0..<retry]\<close>.  The flag \<open>lg\<close> tells whether a logger was
  passed: the log line of a partial fill computes \<^verbatim>\<open>100*remaining/quantity\<close>, which
  raises \<^verbatim>\<open>ZeroDivisionError\<close> for a quantity of zero.  The wrappers return the
  dictionary \<^verbatim>\<open>{'success': ..., 'result': ...}\<close>, which starts as
  \<^verbatim>\<open>{'success': False, 'result': {}}\<close>.
\<close>

definition initial_response :: "order_data response" where
  "initial_response = \<lparr>success = False, result = None\<rparr>"

fun cancel_loop ::
  "exchange \<Rightarrow> string \<Rightarrow> nat \<Rightarrow> nat list \<Rightarrow> call list \<Rightarrow> call list \<times> (py_error + bool)" where
  "cancel_loop bittrex buy_uuid retry [] tr = (tr, Inr False)"
| "cancel_loop bittrex buy_uuid retry (kk # ks) tr =
     (let cancel_response = cancel bittrex tr buy_uuid;
          tr1 = tr @ [Cancel buy_uuid]
      in if success cancel_response then (tr1, Inr True)
         else if int kk = int retry - 1
           then (tr1, Inl (RuntimeError ''Tradebot: failed to cancel remaining order.''))
         else cancel_loop bittrex buy_uuid retry ks (tr1 @ [Sleep 1]))"

fun buy_poll_loop ::
  "exchange \<Rightarrow> bool \<Rightarrow> string \<Rightarrow> nat \<Rightarrow> nat list \<Rightarrow> call list
     \<Rightarrow> call list \<times> (py_error + order_data response)" where
  "buy_poll_loop bittrex lg buy_uuid retry [] tr = (tr, Inr initial_response)"
| "buy_poll_loop bittrex lg buy_uuid retry (jj # js) tr =
     (let order_response = get_order bittrex tr (Some buy_uuid);
          tr1 = tr @ [GetOrder (Some buy_uuid)]
      in if success order_response then
           (case result order_response of
              None \<Rightarrow> (tr1, Inl AttributeError)
            | Some d \<Rightarrow>
                (let quantity = Quantity d; remaining = QuantityRemaining d
                 in if remaining > 0 then
                      (if lg \<and> quantity = 0 then (tr1, Inl ZeroDivisionError)
                       else
                         (case cancel_loop bittrex buy_uuid retry [0..<retry] tr1 of
                            (tr2, Inl e) \<Rightarrow> (tr2, Inl e)
                          | (tr2, Inr ok) \<Rightarrow>
                              (tr2, Inr \<lparr>success = ok, result = Some d\<rparr>)))
                    else (tr1, Inr \<lparr>success = True, result = Some d\<rparr>)))
         else if int jj = int retry - 1
           then (tr1, Inl (RuntimeError ''Tradebot: failed to get buy order metadata.''))
         else buy_poll_loop bittrex lg buy_uuid retry js (tr1 @ [Sleep 1]))"

fun buy_submit_loop ::
  "exchange \<Rightarrow> bool \<Rightarrow> string \<Rightarrow> decimal \<Rightarrow> decimal \<Rightarrow> nat \<Rightarrow> nat list \<Rightarrow> call list
     \<Rightarrow> call list \<times> (py_error + order_data response)" where
  "buy_submit_loop bittrex lg mkt quantity rate retry [] tr = (tr, Inr initial_response)"
| "buy_submit_loop bittrex lg mkt quantity rate retry (ii # is) tr =
     (let buy_response = buy_limit bittrex tr mkt quantity rate;
          tr1 = tr @ [BuyLimit mkt quantity rate]
      in if success buy_response then
           (case result buy_response of
              None \<Rightarrow> (tr1, Inl AttributeError)
            | Some buy_uuid \<Rightarrow>
                buy_poll_loop bittrex lg buy_uuid retry [0..<retry] (tr1 @ [Sleep 3]))
         else buy_submit_loop bittrex lg mkt quantity rate retry is (tr1 @ [Sleep 1]))"

definition buy_or_else ::
  "exchange \<Rightarrow> string \<Rightarrow> decimal \<Rightarrow> decimal \<Rightarrow> nat \<Rightarrow> bool \<Rightarrow> call list
     \<Rightarrow> call list \<times> (py_error + order_data response)" where
  "buy_or_else bittrex mkt quantity rate retry lg tr =
     buy_submit_loop bittrex lg mkt quantity rate retry [0..<retry] tr"

fun sell_poll_loop ::
  "exchange \<Rightarrow> string \<Rightarrow> nat \<Rightarrow> nat list \<Rightarrow> call list
     \<Rightarrow> call list \<times> (py_error + order_data response)" where
  "sell_poll_loop bittrex sell_uuid retry [] tr = (tr, Inr initial_response)"
| "sell_poll_loop bittrex sell_uuid retry (jj # js) tr =
     (let order_response = get_order bittrex tr (Some sell_uuid);
          tr1 = tr @ [GetOrder (Some sell_uuid)]
      in if success order_response
           then (tr1, Inr \<lparr>success = True, result = result order_response\<rparr>)
         else if int jj = int retry - 1
           then (tr1, Inl (RuntimeError
                  ''Error: Get sell order metadata max API retry limit reached.''))
         else sell_poll_loop bittrex sell_uuid retry js (tr1 @ [Sleep 1]))"

fun sell_submit_loop ::
  "exchange \<Rightarrow> string \<Rightarrow> decimal \<Rightarrow> decimal \<Rightarrow> nat \<Rightarrow> nat list \<Rightarrow> call list
     \<Rightarrow> call list \<times> (py_error + order_data response)" where
  "sell_submit_loop bittrex mkt quantity rate retry [] tr = (tr, Inr initial_response)"
| "sell_submit_loop bittrex mkt quantity rate retry (ii # is) tr =
     (let sell_response = sell_limit bittrex tr mkt quantity rate;
          tr1 = tr @ [SellLimit mkt quantity rate]
      in if success sell_response then
           (case result sell_response of
              None \<Rightarrow> (tr1, Inl AttributeError)
            | Some sell_uuid \<Rightarrow>
                sell_poll_loop bittrex sell_uuid retry [0..<retry] (tr1 @ [Sleep 3]))
         else if int ii = int retry - 1
           then (tr1, Inl (RuntimeError ''Error: Sell order max API retry limit reached.''))
         else sell_submit_loop bittrex mkt quantity rate retry is (tr1 @ [Sleep 1]))"

definition sell_or_else ::
  "exchange \<Rightarrow> string \<Rightarrow> decimal \<Rightarrow> decimal \<Rightarrow> nat \<Rightarrow> call list
     \<Rightarrow> call list \<times> (py_error + order_data response)" where
  "sell_or_else bittrex mkt quantity rate retry tr =
     sell_submit_loop bittrex mkt quantity rate retry [0..<retry] tr"




section \<open>Market history (\<^verbatim>\<open>run_crocket.py\<close>)\<close>

text \<open>
  One entry of \<^verbatim>\<open>get_market_history\<close>, with the keys the program reads.  The size of
  a trade is read under the key \<^verbatim>\<open>'Total'\<close>: this is the quantity of an entry in
  the words of the spec.  \<open>TimeStamp\<close> is the instant the timestamp string denotes, in
  seconds.
\<close>

record entry =
  Id :: int
  TimeStamp :: rat
  Price :: rat
  Total :: rat
  OrderType :: string

text \<open>
  A time value is either a timestamp string or a \<^verbatim>\<open>datetime\<close> object, both given by
  their instant.  \<^verbatim>\<open>convert_bittrex_timestamp_to_datetime\<close> parses a string with
  \<^verbatim>\<open>datetime.strptime\<close>, which raises \<^verbatim>\<open>TypeError\<close> for an argument that is not a
  string; the function catches \<^verbatim>\<open>ValueError\<close> only.
\<close>

datatype time_value = Str rat | Datetime rat

fun convert_bittrex_timestamp_to_datetime :: "time_value \<Rightarrow> py_error + rat" where
  "convert_bittrex_timestamp_to_datetime (Str t) = Inr t"
| "convert_bittrex_timestamp_to_datetime (Datetime t) = Inl TypeError"

text \<open>
  The dictionary of \<^verbatim>\<open>calculate_metrics\<close>.  \<open>time\<close> is the instant of the formatted
  local time.
\<close>

record metrics =
  volume :: rat
  buy_order :: int
  sell_order :: int
  price :: decimal
  price_volume_weighted :: decimal
  time :: rat

text \<open>
  \<^verbatim>\<open>calculate_metrics(data, start_datetime, digits=8)\<close>.  The time is formatted before
  the entries are looked at.  A \<^verbatim>\<open>Decimal\<close> division by zero raises
  \<^verbatim>\<open>InvalidOperation\<close> for \<open>0 / 0\<close> and \<^verbatim>\<open>DivisionByZero\<close> otherwise.
\<close>

definition calculate_metrics :: "entry list \<Rightarrow> time_value \<Rightarrow> nat \<Rightarrow> py_error + metrics" where
  "calculate_metrics data start_datetime digits =
     (case convert_bittrex_timestamp_to_datetime start_datetime of
        Inl e \<Rightarrow> Inl e
      | Inr formatted_time \<Rightarrow>
          if data = [] then
            Inr \<lparr>volume = 0, buy_order = 0, sell_order = 0, price = 0,
                 price_volume_weighted = 0, time = formatted_time\<rparr>
          else
            (let p = map Price data; v = map Total data; ot = map OrderType data;
                 vol = sum_list v;
                 buys = int (length (filter (\<lambda>x. x = ''BUY'') ot));
                 sells = int (length ot) - buys;
                 pr = quantize digits
                        (sum_list (map (quantize digits) p) / of_nat (length p));
                 weighted = sum_list (map (\<lambda>(x, y). quantize digits x * y) (zip p v))
             in if sum_list v = 0
                  then (if weighted = 0 then Inl InvalidOperation else Inl DivisionByZero)
                else
                  Inr \<lparr>volume = vol, buy_order = buys, sell_order = sells, price = pr,
                       price_volume_weighted = quantize digits (weighted / sum_list v),
                       time = formatted_time\<rparr>))"

definition get_interval_index :: "entry list \<Rightarrow> rat \<Rightarrow> rat \<Rightarrow> nat \<times> nat" where
  "get_interval_index entries target_datetime intvl =
     (let timestamp_list = map TimeStamp entries;
          stop_index = length (filter (\<lambda>x. x > target_datetime) timestamp_list);
          start_index = length (filter (\<lambda>x. x - target_datetime > intvl) timestamp_list)
      in (start_index, stop_index))"

text \<open>
  \<^verbatim>\<open>format_bittrex_entry\<close> of \<^verbatim>\<open>run_crocket.py\<close>: the row for the database.  The
  dictionary of \<^verbatim>\<open>calculate_metrics\<close> has the keys \<^verbatim>\<open>time\<close> and \<^verbatim>\<open>price\<close>; the
  other four keys read here are not among its keys, so \<^verbatim>\<open>data.get\<close> gives \<^verbatim>\<open>None\<close>.
\<close>

definition format_bittrex_entry :: "metrics \<Rightarrow> (string \<times> rat option) list" where
  "format_bittrex_entry data =
     [(''time'', Some (time data)), (''price'', Some (price data)), (''wprice'', None),
      (''basevolume'', None), (''buyorder'', None), (''sellorder'', None)]"

text \<open>\<^verbatim>\<open>list.index\<close>: the first position of a value, \<open>None\<close> for \<^verbatim>\<open>ValueError\<close>.\<close>

fun index_of :: "'a list \<Rightarrow> 'a \<Rightarrow> nat option" where
  "index_of [] y = None"
| "index_of (x # xs) y =
     (if x = y then Some 0 else map_option Suc (index_of xs y))"

text \<open>
  The merge of a fetched page into the working list (lines 242 to 246, and line 287
  for the page that does not hold the newest known identifier).  The result is the
  index found, if any, and the new working list.
\<close>

definition merge_page ::
  "entry list \<Rightarrow> entry list \<Rightarrow> py_error + (nat option \<times> entry list)" where
  "merge_page market_history wl =
     (case wl of
        [] \<Rightarrow> Inl IndexError
      | w # ws \<Rightarrow>
          (let last_id = Id w
           in case index_of (map Id market_history) last_id of
                Some index \<Rightarrow> Inr (Some index, take index market_history @ wl)
              | None \<Rightarrow> Inr (None, market_history @ wl)))"

text \<open>The same page merged \<open>n\<close> times in a row.\<close>

fun merge_repeatedly :: "nat \<Rightarrow> entry list \<Rightarrow> entry list \<Rightarrow> py_error + entry list" where
  "merge_repeatedly 0 market_history wl = Inr wl"
| "merge_repeatedly (Suc n) market_history wl =
     (case merge_page market_history wl of
        Inl e \<Rightarrow> Inl e
      | Inr (i, wl') \<Rightarrow> merge_repeatedly n market_history wl')"

text \<open>Newest first: the identifiers, which the exchange assigns in order of arrival, fall.\<close>

definition newest_first :: "entry list \<Rightarrow> bool" where
  "newest_first wl = sorted_wrt (\<lambda>a b. Id b < Id a) wl"

text \<open>
  The variables of the polling loop.  \<open>metrics\<close> is \<open>None\<close> as long as the name is not
  bound: the first assignment to it is inside the loop.
\<close>

record loop_state =
  working_list :: "entry list"
  current_datetime :: rat
  "constant" :: int
  metrics :: "metrics option"
  sleep_time :: int

definition interval :: rat where
  "interval = 60"

text \<open>
  The end of every pass of the loop, after the \<^verbatim>\<open>try\<close> statement (lines 296 and 297):
  the row of \<^verbatim>\<open>metrics\<close> is inserted.  \<open>db\<close> is the list of rows inserted so far.
\<close>

definition persist ::
  "loop_state \<Rightarrow> (string \<times> rat option) list list
     \<Rightarrow> py_error + (loop_state \<times> (string \<times> rat option) list list)" where
  "persist st db =
     (case metrics st of
        None \<Rightarrow> Inl NameError
      | Some m \<Rightarrow> Inr (st, db @ [format_bittrex_entry m]))"

text \<open>
  One pass of the \<^verbatim>\<open>while True\<close> loop, without the final \<^verbatim>\<open>sleep\<close>.
  \<open>market_history\<close> is the \<^verbatim>\<open>result\<close> of \<^verbatim>\<open>get_market_history\<close>, \<open>None\<close> for a failed
  call.  \<open>current_datetime\<close> is a \<^verbatim>\<open>datetime\<close> object, and is passed as such to
  \<^verbatim>\<open>calculate_metrics\<close>.  No exception but \<^verbatim>\<open>ValueError\<close> is caught inside the loop.
\<close>

definition poll_cycle ::
  "entry list option \<Rightarrow> loop_state \<Rightarrow> (string \<times> rat option) list list
     \<Rightarrow> py_error + (loop_state \<times> (string \<times> rat option) list list)" where
  "poll_cycle market_history st db =
     (case working_list st of
        [] \<Rightarrow> Inl IndexError
      | w # ws \<Rightarrow>
          (case market_history of
             None \<Rightarrow> Inl TypeError
           | Some mh \<Rightarrow>
               (case merge_page mh (working_list st) of
                  Inl e \<Rightarrow> Inl e
                | Inr (Some index, wl) \<Rightarrow>
                    (let latest_datetime = TimeStamp (hd wl);  \<comment> \<open>\<open>wl\<close> is not empty here\<close>
                         new_sleep = (if index < 30 then 60 else 30)
                     in if latest_datetime - current_datetime st > interval then
                          (case get_interval_index wl (current_datetime st) interval of
                             (start, stop) \<Rightarrow>
                               (case calculate_metrics (take (stop - start) (drop start wl))
                                       (Datetime (current_datetime st)) 8 of
                                  Inl e \<Rightarrow> Inl e
                                | Inr m \<Rightarrow>
                                    persist
                                      (st\<lparr>working_list := take start wl,
                                          current_datetime := current_datetime st + interval,
                                          constant := 0,
                                          metrics := Some m,
                                          sleep_time := new_sleep\<rparr>) db))
                        else if constant st > 2 then
                          (case get_interval_index wl (current_datetime st) interval of
                             (start, stop) \<Rightarrow>
                               (case calculate_metrics (take (stop - start) (drop start wl))
                                       (Datetime (current_datetime st)) 8 of
                                  Inl e \<Rightarrow> Inl e
                                | Inr new_metrics \<Rightarrow>
                                    (case metrics st of
                                       None \<Rightarrow> Inl NameError
                                     | Some m \<Rightarrow>
                                         persist
                                           (st\<lparr>working_list := take start wl,
                                               current_datetime :=
                                                 current_datetime st + interval,
                                               metrics :=
                                                 Some (m\<lparr>volume := volume new_metrics,
                                                         buy_order := buy_order new_metrics,
                                                         sell_order := sell_order new_metrics,
                                                         time := time new_metrics\<rparr>),
                                               sleep_time := new_sleep\<rparr>) db)))
                        else
                          persist
                            (st\<lparr>working_list := wl,
                                constant := constant st + 1,
                                sleep_time := new_sleep\<rparr>) db)
                | Inr (None, wl) \<Rightarrow>
                    (case calculate_metrics wl (Datetime (current_datetime st)) 8 of
                       Inl e \<Rightarrow> Inl e
                     | Inr m \<Rightarrow>
                         persist
                           (st\<lparr>working_list := wl,
                               current_datetime := current_datetime st + interval,
                               metrics := Some m,
                               sleep_time := 30\<rparr>) db))))"

section \<open>Sample inputs\<close>

text \<open>
  Exchanges for the examples: \<open>rejecting tk\<close> quotes the ticker \<open>tk\<close> and refuses
  every other call; \<open>filling tk d\<close> quotes \<open>tk\<close>, accepts every order and cancellation,
  and reports the order record \<open>d\<close>.
\<close>

definition rejecting :: "ticker \<Rightarrow> exchange" where
  "rejecting tk =
     \<lparr>get_ticker = (\<lambda>h m. \<lparr>success = True, result = Some tk\<rparr>),
      buy_limit = (\<lambda>h m q r. \<lparr>success = False, result = None\<rparr>),
      sell_limit = (\<lambda>h m q r. \<lparr>success = False, result = None\<rparr>),
      get_order = (\<lambda>h u. \<lparr>success = False, result = None\<rparr>),
      cancel = (\<lambda>h u. \<lparr>success = False, result = None\<rparr>)\<rparr>"

definition filling :: "ticker \<Rightarrow> order_data \<Rightarrow> exchange" where
  "filling tk d =
     \<lparr>get_ticker = (\<lambda>h m. \<lparr>success = True, result = Some tk\<rparr>),
      buy_limit = (\<lambda>h m q r. \<lparr>success = True, result = Some ''8f178b37''\<rparr>),
      sell_limit = (\<lambda>h m q r. \<lparr>success = True, result = Some ''8f178b37''\<rparr>),
      get_order = (\<lambda>h u. \<lparr>success = True, result = Some d\<rparr>),
      cancel = (\<lambda>h u. \<lparr>success = True, result = None\<rparr>)\<rparr>"

definition rdd_ticker :: ticker where
  "rdd_ticker = \<lparr>Bid = 74 / 100000000, Ask = 76 / 100000000\<rparr>"



text \<open>The order record of the docstring of \<^verbatim>\<open>add_completed_order\<close>, and variants of it.\<close>

definition bought_record :: order_data where
  "bought_record =
     \<lparr>Type = ''LIMIT_BUY'', Quantity = 1366, QuantityRemaining = 0,
      Price = 101084 / 100000000, PricePerUnit = 74 / 100000000,
      CommissionPaid = 252 / 100000000, Closed = Some 1514005255\<rparr>"

definition sold_record :: order_data where
  "sold_record = bought_record\<lparr>Type := ''LIMIT_SELL''\<rparr>"




definition rdd_wallet :: wallet where
  "rdd_wallet = (\<lambda>m. if m = ''BTC-RDD'' then 1366 else 0)"

text \<open>The tape of three entries of the spec, newest first, and one later entry.\<close>

definition trade_a :: entry where
  "trade_a = \<lparr>Id = 3, TimeStamp = 30, Price = 100, Total = 1, OrderType = ''BUY''\<rparr>"

definition trade_b :: entry where
  "trade_b = \<lparr>Id = 2, TimeStamp = 20, Price = 102, Total = 2, OrderType = ''SELL''\<rparr>"

definition trade_c :: entry where
  "trade_c = \<lparr>Id = 1, TimeStamp = 10, Price = 98, Total = 1, OrderType = ''BUY''\<rparr>"

definition tape :: "entry list" where
  "tape = [trade_a, trade_b, trade_c]"

definition newer_entry :: entry where
  "newer_entry = \<lparr>Id = 4, TimeStamp = 31, Price = 101, Total = 5, OrderType = ''BUY''\<rparr>"

text \<open>
  The variables when the loop is entered, for a first page \<open>newest # older\<close>: the
  working list is that page, \<open>current_datetime\<close> the time of its first entry,
  \<open>constant\<close> is 0, \<open>sleep_time\<close> is 30 and \<open>metrics\<close> is not bound.
\<close>

definition initial_state :: "entry \<Rightarrow> entry list \<Rightarrow> loop_state" where
  "initial_state newest older =
     \<lparr>working_list = newest # older,
      current_datetime = TimeStamp newest,
      constant = 0, metrics = None, sleep_time = 30\<rparr>"

definition first_state :: loop_state where
  "first_state = initial_state trade_a [trade_b, trade_c]"

definition some_metrics :: metrics where
  "some_metrics =
     \<lparr>volume = 4, buy_order = 2, sell_order = 1, price = 100,
      price_volume_weighted = 201 / 2, time = 0\<rparr>"


section \<open>Properties of rounding\<close>

text \<open>Rounding a fraction of integers, by integer division: this evaluates numerals.\<close>

lemma round_half_even_of_int_div:
  assumes "0 < b"
  shows "round_half_even (of_int a / of_int b) =
           (if 2 * (a mod b) < b then a div b
            else if b < 2 * (a mod b) then a div b + 1
            else if even (a div b) then a div b else a div b + 1)"
proof -
  have bpos: "(0::rat) < of_int b" using assms by simp
  have fl: "\<lfloor>(of_int a / of_int b :: rat)\<rfloor> = a div b"
    by (simp add: floor_divide_of_int_eq)
  have "(of_int a :: rat) = of_int (a div b) * of_int b + of_int (a mod b)"
    by (metis div_mult_mod_eq of_int_add of_int_mult)
  then have fr: "(of_int a / of_int b :: rat) - of_int (a div b) = of_int (a mod b) / of_int b"
    using bpos by (simp add: field_simps)
  have lt: "(of_int (a mod b) / of_int b < (1 / 2 :: rat)) = (2 * (a mod b) < b)"
  proof -
    have "(of_int (a mod b) / of_int b < (1 / 2 :: rat))
            = ((of_int (2 * (a mod b)) :: rat) < of_int b)"
      using bpos by (simp add: field_simps)
    then show ?thesis by (simp only: of_int_less_iff)
  qed
  have gt: "((1 / 2 :: rat) < of_int (a mod b) / of_int b) = (b < 2 * (a mod b))"
  proof -
    have "((1 / 2 :: rat) < of_int (a mod b) / of_int b)
            = ((of_int b :: rat) < of_int (2 * (a mod b)))"
      using bpos by (simp add: field_simps)
    then show ?thesis by (simp only: of_int_less_iff)
  qed
  show ?thesis
    unfolding round_half_even_def Let_def fl fr lt gt by simp
qed

lemma round_half_even_numeral_div [simp]:
  "round_half_even (numeral a / numeral b) =
     (if 2 * ((numeral a :: int) mod numeral b) < numeral b then numeral a div numeral b
      else if (numeral b :: int) < 2 * (numeral a mod numeral b) then numeral a div numeral b + 1
      else if even ((numeral a :: int) div numeral b) then numeral a div numeral b
      else numeral a div numeral b + 1)"
  using round_half_even_of_int_div [of "numeral b" "numeral a"] by simp

lemma round_half_even_of_int [simp]: "round_half_even (of_int n) = n"
  by (simp add: round_half_even_def)

lemma round_half_even_numeral [simp]: "round_half_even (numeral n) = numeral n"
  using round_half_even_of_int [of "numeral n"] by simp

lemma round_half_even_zero [simp]: "round_half_even 0 = 0"
  using round_half_even_of_int [of 0] by simp






section \<open>Properties of the pricing\<close>





lemma get_ticker_or_else_ok:
  assumes "get_ticker bittrex tr mkt = \<lparr>success = True, result = Some tk\<rparr>"
  shows "get_ticker_or_else bittrex mkt tr = (tr @ [GetTicker mkt], Inr tk)"
  using assms by (simp add: get_ticker_or_else_def Let_def)






section \<open>Properties of the submission\<close>





text \<open>
  Claim C10.  With a ticker at hand and a positive balance for the market,
  \<^verbatim>\<open>sell_below_ask\<close> submits one sell order, and its quantity is the balance of the
  wallet for that market, whatever the order's \<^verbatim>\<open>target_quantity\<close> is: the trace does not
  depend on the order at all.
\<close>

theorem sell_submits_wallet_balance:
  assumes "get_ticker bittrex tr mkt = \<lparr>success = True, result = Some tk\<rparr>"
    and "0 < get_quantity wlt mkt"
  shows "fst (sell_below_ask mkt order wlt bittrex pf tr)
           = tr @ [GetTicker mkt,
                   SellLimit mkt (get_quantity wlt mkt) (sell_price_of (Bid tk) (Ask tk) pf)]"
  using assms(2)
  by (simp add: sell_below_ask_def get_ticker_or_else_ok [OF assms(1)] Let_def
      update_target_price_def split: option.split)

theorem sell_submits_wallet_balance_witness:
  "get_ticker (filling rdd_ticker sold_record) [] ''BTC-RDD''
     = \<lparr>success = True, result = Some rdd_ticker\<rparr>
   \<and> 0 < get_quantity rdd_wallet ''BTC-RDD''
   \<and> fst (sell_below_ask ''BTC-RDD'' (create ''BTC-RDD'' ''SELL'' 5 0) rdd_wallet
            (filling rdd_ticker sold_record) default_percent [])
       = [] @ [GetTicker ''BTC-RDD'',
               SellLimit ''BTC-RDD'' (get_quantity rdd_wallet ''BTC-RDD'')
                 (sell_price_of (Bid rdd_ticker) (Ask rdd_ticker) default_percent)]"
proof -
  have h1: "get_ticker (filling rdd_ticker sold_record) [] ''BTC-RDD''
              = \<lparr>success = True, result = Some rdd_ticker\<rparr>"
    by (simp add: filling_def)
  have h2: "0 < get_quantity rdd_wallet ''BTC-RDD''"
    by (simp add: get_quantity_def rdd_wallet_def)
  show ?thesis
    using h1 h2 sell_submits_wallet_balance [OF h1 h2] by blast
qed

section \<open>Properties of the interval metrics\<close>



section \<open>Properties of the reconciliation\<close>

text \<open>
  Claim C2 at a completed sell.  The record reports 1366 units filled, but
  \<^verbatim>\<open>add_completed_order\<close> assigns \<^verbatim>\<open>current_quantity\<close> in the \<^verbatim>\<open>LIMIT_BUY\<close> branch only, so
  the order keeps its initial quantity of 0.  For a sell and for a buy alike,
  \<^verbatim>\<open>get_order_and_update_wallet\<close> then raises \<^verbatim>\<open>AttributeError\<close> on \<^verbatim>\<open>order.total\<close> before
  the wallet is updated.
\<close>

theorem reconciliation_defects:
  "current_quantity (fst (add_completed_order
       (update_uuid (create ''BTC-RDD'' ''SELL'' 1366 0) ''8f178b37'') (Some sold_record) 0)) = 0
   \<and> Quantity sold_record - QuantityRemaining sold_record = 1366
   \<and> snd (snd (get_order_and_update_wallet
         (update_uuid (create ''BTC-RDD'' ''SELL'' 1366 0) ''8f178b37'') rdd_wallet
         (filling rdd_ticker sold_record) 0 [])) = Inl AttributeError
   \<and> snd (snd (get_order_and_update_wallet
         (update_uuid (create ''BTC-RDD'' ''BUY'' 1366 1) ''8f178b37'') rdd_wallet
         (filling rdd_ticker bought_record) 0 [])) = Inl AttributeError"
  by (simp add: add_completed_order_def get_order_and_update_wallet_def order_total_def
      update_uuid_def create_def sold_record_def bought_record_def filling_def Let_def)

section \<open>Properties of the polling loop\<close>

lemma index_of_less: "index_of xs y = Some k \<Longrightarrow> k < length xs"
  by (induction xs arbitrary: k) (auto split: if_splits)

lemma merge_page_again:
  assumes "merge_page page w0 = Inr (i, w)"
  shows "\<exists>j. merge_page page w = Inr (j, w)"
proof (cases w0)
  case Nil
  with assms show ?thesis by (simp add: merge_page_def)
next
  case (Cons a ws)
  show ?thesis
  proof (cases "index_of (map Id page) (Id a)")
    case None
    then have w: "w = page @ w0" using assms Cons by (simp add: merge_page_def)
    show ?thesis
    proof (cases page)
      case Nil
      then show ?thesis using w assms by auto
    next
      case (Cons p ps)
      then show ?thesis using w by (simp add: merge_page_def)
    qed
  next
    case (Some k)
    then have w: "w = take k page @ w0" using assms Cons by (simp add: merge_page_def)
    show ?thesis
    proof (cases k)
      case 0
      then show ?thesis using w assms by auto
    next
      case (Suc k')
      have "k < length page" using index_of_less [OF Some] by simp
      then obtain p ps where "page = p # ps" by (cases page) auto
      then show ?thesis using w Suc by (simp add: merge_page_def)
    qed
  qed
qed

lemma merge_repeatedly_fixed:
  assumes "\<exists>j. merge_page page w = Inr (j, w)"
  shows "merge_repeatedly n page w = Inr w"
  using assms by (induction n) auto

text \<open>
  Claim C5.  Let \<open>w\<close> be the working list after a page has been merged, without duplicate
  identifiers and newest first.  Merging the same page again, any number of times, adds
  no entry: the working list stays \<open>w\<close>, hence without duplicates and newest first.
\<close>

theorem remerge_unchanged_page:
  assumes "merge_page page w0 = Inr (i, w)"
    and "distinct (map Id w)" and "newest_first w"
  shows "case merge_repeatedly n page w of
           Inl e \<Rightarrow> False
         | Inr w' \<Rightarrow> w' = w \<and> distinct (map Id w') \<and> newest_first w'"
  using merge_repeatedly_fixed [OF merge_page_again [OF assms(1)], of n] assms(2,3)
  by simp

theorem remerge_unchanged_page_witness:
  "merge_page (newer_entry # tape) tape = Inr (Some 1, newer_entry # tape)
   \<and> distinct (map Id (newer_entry # tape)) \<and> newest_first (newer_entry # tape)
   \<and> (case merge_repeatedly 3 (newer_entry # tape) (newer_entry # tape) of
         Inl e \<Rightarrow> False
       | Inr w' \<Rightarrow> w' = newer_entry # tape \<and> distinct (map Id w') \<and> newest_first w')"
proof -
  have h1: "merge_page (newer_entry # tape) tape = Inr (Some 1, newer_entry # tape)"
    by (simp add: merge_page_def tape_def newer_entry_def trade_a_def trade_b_def trade_c_def)
  have h2: "distinct (map Id (newer_entry # tape))"
    by (simp add: tape_def newer_entry_def trade_a_def trade_b_def trade_c_def)
  have h3: "newest_first (newer_entry # tape)"
    by (simp add: newest_first_def tape_def newer_entry_def trade_a_def trade_b_def trade_c_def)
  show ?thesis
    using h1 h2 h3 remerge_unchanged_page [OF h1 h2 h3, of 3] by blast
qed

text \<open>
  Claim C8 on passes of the loop where the newest entry has not crossed the interval
  boundary.  On the first pass \<^verbatim>\<open>metrics\<close> is not bound yet, and the insertion after the
  \<^verbatim>\<open>try\<close> statement raises \<^verbatim>\<open>NameError\<close>.  With \<^verbatim>\<open>metrics\<close> bound, the pass that only
  increments the counter still inserts the row of the previous metrics.  With a counter
  above 2, \<^verbatim>\<open>calculate_metrics\<close> is given a \<^verbatim>\<open>datetime\<close> where it parses a string, and
  raises \<^verbatim>\<open>TypeError\<close>.
\<close>

theorem poll_cycle_defects:
  "poll_cycle (Some tape) first_state [] = Inl NameError
   \<and> poll_cycle (Some tape) (first_state\<lparr>metrics := Some some_metrics\<rparr>) []
       = Inr (first_state\<lparr>constant := 1, metrics := Some some_metrics, sleep_time := 60\<rparr>,
              [format_bittrex_entry some_metrics])
   \<and> poll_cycle (Some tape) (first_state\<lparr>constant := 3, metrics := Some some_metrics\<rparr>) []
       = Inl TypeError"
  by (simp add: poll_cycle_def merge_page_def persist_def first_state_def initial_state_def
      tape_def trade_a_def trade_b_def trade_c_def interval_def get_interval_index_def
      calculate_metrics_def Let_def)

section \<open>Properties of the retry loops\<close>

lemma buy_submit_loop_all_fail:
  assumes "\<And>h. \<not> success (buy_limit bittrex h mkt quantity rate)"
  shows "buy_submit_loop bittrex lg mkt quantity rate retry ks tr
           = (tr @ concat (replicate (length ks) [BuyLimit mkt quantity rate, Sleep 1]),
              Inr initial_response)"
proof (induction ks arbitrary: tr)
  case Nil
  show ?case by simp
next
  case (Cons k ks)
  show ?case using assms by (simp add: Cons.IH Let_def)
qed

lemma sell_submit_loop_all_fail:
  assumes "\<And>h. \<not> success (sell_limit bittrex h mkt quantity rate)"
  shows "i < retry \<Longrightarrow>
         sell_submit_loop bittrex mkt quantity rate retry [i..<retry] tr
           = (tr @ concat (replicate (retry - Suc i) [SellLimit mkt quantity rate, Sleep 1])
                 @ [SellLimit mkt quantity rate],
              Inl (RuntimeError ''Error: Sell order max API retry limit reached.''))"
proof (induction "retry - Suc i" arbitrary: i tr)
  case 0
  then have "retry = Suc i" by simp
  then have "[i..<retry] = [i]" by simp
  then show ?case using assms \<open>retry = Suc i\<close> by (simp add: Let_def)
next
  case (Suc n)
  then have lt: "Suc i < retry" and n: "n = retry - Suc (Suc i)" by simp_all
  have up: "[i..<retry] = i # [Suc i..<retry]"
    using Suc.prems by (simp add: upt_conv_Cons)
  have ne: "int i \<noteq> int retry - 1" using lt by simp
  have rep: "retry - Suc i = Suc (retry - Suc (Suc i))" using lt by simp
  show ?case
    using assms ne
    by (simp only: up sell_submit_loop.simps Let_def Suc.hyps(1) [OF n lt] rep)
       (simp add: Let_def)
qed


lemma buy_above_bid_rejected:
  assumes "\<And>h q r. \<not> success (buy_limit bittrex h mkt q r)"
  shows "snd (snd (buy_above_bid mkt order wlt bittrex pf tr)) = Inr False
       \<and> status (fst (snd (buy_above_bid mkt order wlt bittrex pf tr))) = status order"
proof (cases "get_ticker_or_else bittrex mkt tr")
  case (Pair tr1 res)
  show ?thesis
    using assms Pair
    by (cases res) (simp_all add: buy_above_bid_def update_target_price_def Let_def)
qed

lemma sell_below_ask_rejected:
  assumes "\<And>h q r. \<not> success (sell_limit bittrex h mkt q r)"
  shows "snd (snd (sell_below_ask mkt order wlt bittrex pf tr)) = Inr False
       \<and> status (fst (snd (sell_below_ask mkt order wlt bittrex pf tr))) = status order"
proof (cases "get_ticker_or_else bittrex mkt tr")
  case (Pair tr1 res)
  show ?thesis
    using assms Pair
    by (cases res) (simp_all add: sell_below_ask_def update_target_price_def Let_def)
qed

text \<open>
  Claim C3, as amended.  Let every submission for the market fail, and let the retry
  budget be at least 1.  Then \<^verbatim>\<open>buy_or_else\<close> makes \<open>retry\<close> attempts and returns the
  failure response \<^verbatim>\<open>{'success': False, 'result': {}}\<close> without raising, while
  \<^verbatim>\<open>sell_or_else\<close> makes \<open>retry\<close> attempts and raises \<^verbatim>\<open>RuntimeError\<close> at the last one.
  Neither makes a status poll or a cancellation, and neither is given the order.  The
  single attempt of \<^verbatim>\<open>buy_above_bid\<close> and of \<^verbatim>\<open>sell_below_ask\<close> answers \<^verbatim>\<open>False\<close> and
  leaves the status of the order as it was.
\<close>

theorem submission_retries_exhausted:
  assumes "\<forall>h q r. \<not> success (buy_limit bittrex h mkt q r)"
    and "\<forall>h q r. \<not> success (sell_limit bittrex h mkt q r)"
    and "0 < retry"
  shows "buy_or_else bittrex mkt quantity rate retry lg tr
           = (tr @ concat (replicate retry [BuyLimit mkt quantity rate, Sleep 1]),
              Inr \<lparr>success = False, result = None\<rparr>)
       \<and> sell_or_else bittrex mkt quantity rate retry tr
           = (tr @ concat (replicate (retry - 1) [SellLimit mkt quantity rate, Sleep 1])
                 @ [SellLimit mkt quantity rate],
              Inl (RuntimeError ''Error: Sell order max API retry limit reached.''))
       \<and> snd (snd (buy_above_bid mkt order wlt bittrex pf tr)) = Inr False
       \<and> status (fst (snd (buy_above_bid mkt order wlt bittrex pf tr))) = status order
       \<and> snd (snd (sell_below_ask mkt order wlt bittrex pf tr)) = Inr False
       \<and> status (fst (snd (sell_below_ask mkt order wlt bittrex pf tr))) = status order"
proof -
  have b: "\<And>h. \<not> success (buy_limit bittrex h mkt quantity rate)"
    using assms(1) by simp
  have s: "\<And>h. \<not> success (sell_limit bittrex h mkt quantity rate)"
    using assms(2) by simp
  have b': "\<And>h q r. \<not> success (buy_limit bittrex h mkt q r)"
    using assms(1) by simp
  have s': "\<And>h q r. \<not> success (sell_limit bittrex h mkt q r)"
    using assms(2) by simp
  have 1: "buy_or_else bittrex mkt quantity rate retry lg tr
           = (tr @ concat (replicate retry [BuyLimit mkt quantity rate, Sleep 1]),
              Inr \<lparr>success = False, result = None\<rparr>)"
    using buy_submit_loop_all_fail [of bittrex mkt quantity rate lg retry "[0..<retry]" tr, OF b]
    by (simp add: buy_or_else_def initial_response_def)
  have 2: "sell_or_else bittrex mkt quantity rate retry tr
           = (tr @ concat (replicate (retry - 1) [SellLimit mkt quantity rate, Sleep 1])
                 @ [SellLimit mkt quantity rate],
              Inl (RuntimeError ''Error: Sell order max API retry limit reached.''))"
    using sell_submit_loop_all_fail [of bittrex mkt quantity rate 0 retry tr, OF s assms(3)]
    by (simp add: sell_or_else_def)
  show ?thesis
    using 1 2 buy_above_bid_rejected [of bittrex mkt order wlt pf tr, OF b']
      sell_below_ask_rejected [of bittrex mkt order wlt pf tr, OF s']
    by simp
qed

theorem submission_retries_exhausted_witness:
  "(\<forall>h q r. \<not> success (buy_limit (rejecting rdd_ticker) h ''BTC-RDD'' q r))
   \<and> (\<forall>h q r. \<not> success (sell_limit (rejecting rdd_ticker) h ''BTC-RDD'' q r))
   \<and> (0::nat) < 3
   \<and> buy_or_else (rejecting rdd_ticker) ''BTC-RDD'' 1366 (74 / 100000000) 3 False []
       = ([] @ concat (replicate 3 [BuyLimit ''BTC-RDD'' 1366 (74 / 100000000), Sleep 1]),
          Inr \<lparr>success = False, result = None\<rparr>)
   \<and> sell_or_else (rejecting rdd_ticker) ''BTC-RDD'' 1366 (74 / 100000000) 3 []
       = ([] @ concat (replicate (3 - 1) [SellLimit ''BTC-RDD'' 1366 (74 / 100000000), Sleep 1])
             @ [SellLimit ''BTC-RDD'' 1366 (74 / 100000000)],
          Inl (RuntimeError ''Error: Sell order max API retry limit reached.''))
   \<and> snd (snd (buy_above_bid ''BTC-RDD'' (create ''BTC-RDD'' ''BUY'' 1366 0) rdd_wallet
         (rejecting rdd_ticker) default_percent [])) = Inr False
   \<and> status (fst (snd (buy_above_bid ''BTC-RDD'' (create ''BTC-RDD'' ''BUY'' 1366 0) rdd_wallet
         (rejecting rdd_ticker) default_percent [])))
       = status (create ''BTC-RDD'' ''BUY'' 1366 0)
   \<and> snd (snd (sell_below_ask ''BTC-RDD'' (create ''BTC-RDD'' ''BUY'' 1366 0) rdd_wallet
         (rejecting rdd_ticker) default_percent [])) = Inr False
   \<and> status (fst (snd (sell_below_ask ''BTC-RDD'' (create ''BTC-RDD'' ''BUY'' 1366 0) rdd_wallet
         (rejecting rdd_ticker) default_percent [])))
       = status (create ''BTC-RDD'' ''BUY'' 1366 0)"
proof -
  have h1: "\<forall>h q r. \<not> success (buy_limit (rejecting rdd_ticker) h ''BTC-RDD'' q r)"
    by (simp add: rejecting_def)
  have h2: "\<forall>h q r. \<not> success (sell_limit (rejecting rdd_ticker) h ''BTC-RDD'' q r)"
    by (simp add: rejecting_def)
  have h3: "(0::nat) < 3" by simp
  show ?thesis
    using h1 h2 h3 submission_retries_exhausted [OF h1 h2 h3] by blast
qed

text \<open>
  Claim C3 as stated does not hold for a sell: after three refused submissions
  \<^verbatim>\<open>sell_or_else\<close> raises \<^verbatim>\<open>RuntimeError\<close> instead of returning a failure response.
\<close>

theorem sell_exhaustion_raises:
  "sell_or_else (rejecting rdd_ticker) ''BTC-RDD'' 1366 (74 / 100000000) 3 []
     = ([SellLimit ''BTC-RDD'' 1366 (74 / 100000000), Sleep 1,
         SellLimit ''BTC-RDD'' 1366 (74 / 100000000), Sleep 1,
         SellLimit ''BTC-RDD'' 1366 (74 / 100000000)],
        Inl (RuntimeError ''Error: Sell order max API retry limit reached.''))"
  by (simp add: sell_or_else_def rejecting_def upt_conv_Cons Let_def)








end
